theory Spec2Isabelle
  imports Main "HOL-Library.Sublist"
begin

section \<open>Deep-dive issue digest (src/deepDives.ts)\<close>

text \<open>
  The module reads the open issues labelled Deep-dive through an API client \<open>kit\<close>,
  extracts a due date and two role lines from each issue body, looks at the comments of
  issues that are due, and renders one line per issue.

  What the TypeScript does beyond returning values is explicit here:
  \<^item> a thrown exception or a rejected promise is \<open>Inl e\<close> of a result \<open>error + 'a\<close>;
  \<^item> the calls made on \<open>kit\<close> are recorded in a log that every function threads through;
  \<^item> every \<open>new Date()\<close> is an argument: the reading of the clock at that point;
  \<^item> an optional property is an \<open>option\<close>, \<open>None\<close> for \<open>undefined\<close>;
  \<^item> a regular expression literal is compiled where the function that holds it evaluates
    it, and a literal outside the grammar is a \<open>SyntaxError\<close> there.
\<close>

subsection \<open>Values of the platform\<close>

text \<open>
  A time value is the number of milliseconds since the epoch that \<open>Date.getTime\<close> returns.
  The differences the module compares with \<open>oneDayMs\<close> are differences of integral doubles;
  rounding is monotone and fixes \<open>oneDayMs\<close> and its successor, so the comparison on
  integers decides the same.
\<close>

type_synonym timeval = int

definition oneDayMs :: timeval where
  "oneDayMs = 1000 * 60 * 60 * 24"

datatype error =
    SyntaxError          \<comment> \<open>a regular expression literal that is not in the grammar\<close>
  | TypeError            \<comment> \<open>destructuring \<open>null\<close>, reading a property of \<open>undefined\<close>, calling a non-function\<close>
  | RangeError           \<comment> \<open>\<open>toISOString\<close> of an invalid date\<close>
  | Error string         \<comment> \<open>\<open>throw new Error(msg)\<close>\<close>
  | Failure string       \<comment> \<open>whatever the API client throws or rejects with\<close>

text \<open>JavaScript truthiness of an optional boolean: only \<open>true\<close> is truthy.\<close>

fun truthy :: "bool option \<Rightarrow> bool" where
  "truthy (Some b) = b"
| "truthy None = False"

text \<open>A value interpolated into a template literal; \<open>undefined\<close> prints as the word.\<close>

fun interpolate :: "string option \<Rightarrow> string" where
  "interpolate (Some s) = s"
| "interpolate None = ''undefined''"

text \<open>
  What a call of the duck-typed \<open>kit.paginate\<close> can hand back: an array at once, a promise
  (settled later, with an error or an array), or an exception thrown by the call itself.
\<close>

datatype 'a returned = Array 'a | Promise "error + 'a" | Throws error

text \<open>\<open>await\<close> passes a plain value through and unwraps a promise.\<close>

fun await :: "'a returned \<Rightarrow> error + 'a" where
  "await (Array x) = Inr x"
| "await (Promise r) = r"
| "await (Throws e) = Inl e"

subsection \<open>Strings\<close>

text \<open>\<open>String.prototype.includes\<close>: does \<open>sub\<close> occur in \<open>s\<close> as a contiguous run?\<close>

fun includes' :: "string \<Rightarrow> string \<Rightarrow> bool" where
  "includes' [] sub = (sub = [])"
| "includes' (c # cs) sub = (prefix sub (c # cs) \<or> includes' cs sub)"

subsection \<open>Regular expression literals\<close>

text \<open>
  A literal \<open>/source/flags\<close>. Its pattern is compiled when the literal is evaluated, and a
  pattern outside the ECMAScript grammar is a \<open>SyntaxError\<close>. The part of the grammar that
  matters for this module is the opening of a group: after \<open>(?\<close> comes \<open>:\<close>, \<open>=\<close>, \<open>!\<close>
  or \<open><\<close>, or modifier flags (\<open>i\<close>, \<open>m\<close>, \<open>s\<close>, \<open>-\<close>) that end with a colon. The inline
  flag group \<open>(?s)\<close> of other dialects is none of these. \<open>groups_ok\<close> checks every group
  opening of a pattern, skipping escaped characters; it does not look at the rest of the
  grammar.
\<close>

datatype regexp = RegExp string string

fun modifiers_ok :: "string \<Rightarrow> bool" where
  "modifiers_ok [] = False"
| "modifiers_ok (c # cs) = (c = CHR '':'' \<or> (c \<in> set ''ims-'' \<and> modifiers_ok cs))"

fun group_ok :: "string \<Rightarrow> bool" where
  "group_ok [] = False"
| "group_ok (c # cs) = (c \<in> set '':=!<'' \<or> (c \<in> set ''ims-'' \<and> modifiers_ok cs))"

fun groups_ok :: "string \<Rightarrow> bool" where
  "groups_ok [] = True"
| "groups_ok [c] = True"
| "groups_ok (c # d # cs) =
     (if c = CHR 0x5C then groups_ok cs
      else if c = CHR ''('' \<and> d = CHR ''?'' then group_ok cs \<and> groups_ok cs
      else groups_ok (d # cs))"

definition regexp_literal :: "string \<Rightarrow> string \<Rightarrow> error + regexp" where
  "regexp_literal source flags =
     (if groups_ok source then Inr (RegExp source flags) else Inl SyntaxError)"

text \<open>
  \<open>String.prototype.match\<close> with a compiled pattern that has the \<open>g\<close> flag: \<open>null\<close> when
  nothing matches, otherwise the array of the matched substrings. What a well-formed
  pattern matches is the engine's business, so the matcher is a parameter.
\<close>

type_synonym matcher = "regexp \<Rightarrow> string \<Rightarrow> string list option"

text \<open>\<open>!!xs[0]\<close> after \<open>const [x] = xs\<close>: the first element exists and is not the empty string.\<close>

fun first_truthy :: "string list \<Rightarrow> bool" where
  "first_truthy [] = False"
| "first_truthy (x # xs) = (x \<noteq> [])"

subsection \<open>Data model\<close>

record missingFields =
  leader :: "bool option"
  notetaker :: "bool option"

record missingUpdates =
  pastDue :: "bool option"
  needsRecording :: "bool option"
  needsNotes :: "bool option"

text \<open>
  \<open>DeepDiveIssueUpdate\<close>. The field \<open>id\<close> comes from \<open>BaseUpdate\<close> (./shared.types), which
  the collector fills with the issue's id. \<open>dueDate\<close> is an ISO timestamp in the source; it
  is represented by the instant it denotes, since \<open>toISOString\<close> and the \<open>Date\<close> constructor
  are inverse to each other on such strings. Every property is optional here, because the
  formatter is also applied to objects that have none of them (see the top-level function).
\<close>

record DeepDiveIssueUpdate =
  id' :: "int option"
  dueDate :: "timeval option"
  highPriority :: "bool option"
  missingFields :: "missingFields option"
  missingUpdates :: "missingUpdates option"
  title :: "string option"
  url :: "string option"

text \<open>What the API client returns: issues and comments, with the properties the module reads.\<close>

record issue =
  issue_id :: int
  issue_url :: string
  issue_title :: string
  issue_body :: string

record comment =
  body :: string

text \<open>
  A call \<open>kit.paginate(route, params)\<close>:
  \<open>ListIssues owner repo labels state\<close> is the route \<open>GET /repos/{owner}/{repo}/issues\<close>,
  \<open>ListComments issue_number owner repo\<close> is
  \<open>GET /repos/{owner}/{repo}/issues/{issue_number}/comments\<close>.
\<close>

datatype request =
    ListIssues string string string string
  | ListComments int string string

record kit =
  paginate_issues :: "request \<Rightarrow> issue list returned"
  paginate_comments :: "request \<Rightarrow> comment list returned"

text \<open>The calls made on the client so far, oldest first.\<close>

type_synonym world = "request list"

text \<open>
  \<open>new Date(text)\<close> for free text: the time value, or \<open>None\<close> for an invalid date. Outside
  the ISO format the result is up to the engine, so the parser is a parameter.
\<close>

type_synonym date_parser = "string \<Rightarrow> timeval option"

subsection \<open>Text extractors\<close>

text \<open>
  Each extractor begins by evaluating its regular expression literals. The source of the
  first is \<open>## Timing(?s)(.*)\[Google Event\<close> (the backslash is written as a character code).
\<close>

definition getDueDateFromDeepDiveBody ::
  "matcher \<Rightarrow> date_parser \<Rightarrow> string \<Rightarrow> error + timeval" where
  "getDueDateFromDeepDiveBody engine parse issueBody =
     (case regexp_literal (''## Timing(?s)(.*)'' @ [CHR 0x5C] @ ''[Google Event'') ''g'' of
        Inl e \<Rightarrow> Inl e
      | Inr regex \<Rightarrow>
          (case engine regex issueBody of
             None \<Rightarrow> Inl TypeError
           | Some [] \<Rightarrow> Inl (Error ''No date found for Deep Dive'')
           | Some (dueDateUnformatted # rest) \<Rightarrow>
               if dueDateUnformatted = [] then Inl (Error ''No date found for Deep Dive'')
               else (case parse dueDateUnformatted of
                       None \<Rightarrow> Inl RangeError
                     | Some t \<Rightarrow> Inr t)))"

definition getMissingFieldsFromDeepDiveBody :: "matcher \<Rightarrow> string \<Rightarrow> error + missingFields" where
  "getMissingFieldsFromDeepDiveBody engine issueBody =
     (case regexp_literal ''Notetaker:(?s)(.*)?'' ''g'' of
        Inl e \<Rightarrow> Inl e
      | Inr notetakerRegex \<Rightarrow>
          (case regexp_literal ''Leader:(?s)(.*)Notetaker'' ''g'' of
             Inl e \<Rightarrow> Inl e
           | Inr leaderRegex \<Rightarrow>
               (case engine notetakerRegex issueBody of
                  None \<Rightarrow> Inl TypeError
                | Some notetaker' \<Rightarrow>
                    (case engine leaderRegex issueBody of
                       None \<Rightarrow> Inl TypeError
                     | Some leader' \<Rightarrow>
                         Inr \<lparr>leader = Some (first_truthy leader'),
                              notetaker = Some (first_truthy notetaker')\<rparr>))))"

subsection \<open>Status evaluator\<close>

text \<open>The body of the \<open>forEach\<close>: the pair is \<open>(needsRecording, needsNotes)\<close>.\<close>

definition scan_comment :: "bool \<times> bool \<Rightarrow> comment \<Rightarrow> bool \<times> bool" where
  "scan_comment needs c =
     (if includes' (body c) ''github.rewatch.com'' then False else fst needs,
      if includes' (body c) ''/accessibility/blob/main/docs/deep-dive-notes/'' then False
      else snd needs)"

text \<open>
  \<open>getMissingUpdates(kit, {dueDate, issueId, owner, repo})\<close>; \<open>now\<close> is what \<open>new Date()\<close>
  reads. The request is logged when \<open>kit.paginate\<close> is called, before its outcome is known.
\<close>

definition getMissingUpdates ::
  "kit \<Rightarrow> timeval \<Rightarrow> timeval \<Rightarrow> int \<Rightarrow> string \<Rightarrow> string \<Rightarrow> world
     \<Rightarrow> (error + missingUpdates) \<times> world" where
  "getMissingUpdates kit now due issueId owner repo w =
     (let pastDue' = (due - now \<le> oneDayMs) in
      if \<not> pastDue'
      then (Inr \<lparr>pastDue = Some pastDue', needsRecording = None, needsNotes = None\<rparr>, w)
      else
        (case await (paginate_comments kit (ListComments issueId owner repo)) of
           Inl e \<Rightarrow> (Inl e, w @ [ListComments issueId owner repo])
         | Inr comments \<Rightarrow>
             (let needs = foldl scan_comment (True, True) comments in
              (Inr \<lparr>pastDue = Some pastDue', needsRecording = Some (fst needs),
                    needsNotes = Some (snd needs)\<rparr>,
               w @ [ListComments issueId owner repo]))))"

subsection \<open>Issue collector\<close>

text \<open>
  The statements under \<open>check for high priority status\<close>: \<open>now\<close> is the clock reading
  taken for \<open>isTomorrow\<close>, \<open>due\<close> and \<open>mf\<close> are the due date and the role flags of
  \<open>mappedIssue\<close>.
\<close>

definition check_high_priority ::
  "timeval \<Rightarrow> timeval \<Rightarrow> missingFields \<Rightarrow> DeepDiveIssueUpdate \<Rightarrow> DeepDiveIssueUpdate" where
  "check_high_priority now due mf mappedIssue =
     (let isTomorrow = (due - now \<le> oneDayMs) in
      if isTomorrow \<and> (truthy (leader mf) \<or> truthy (leader mf))
      then mappedIssue\<lparr>highPriority := Some True\<rparr>
      else mappedIssue)"

text \<open>
  The async arrow function that \<open>getDeepDiveIssues\<close> maps over the issues. \<open>clk\<close> holds its
  two clock readings: the first is taken inside \<open>getMissingUpdates\<close>, the second for
  \<open>isTomorrow\<close>. The result is how the promise it returns settles.
\<close>

definition issue_callback ::
  "matcher \<Rightarrow> date_parser \<Rightarrow> kit \<Rightarrow> string \<Rightarrow> string \<Rightarrow> timeval \<times> timeval \<Rightarrow> issue \<Rightarrow> world
     \<Rightarrow> (error + DeepDiveIssueUpdate) \<times> world" where
  "issue_callback engine parse kit owner repo clk issue w =
     (case getDueDateFromDeepDiveBody engine parse (issue_body issue) of
        Inl e \<Rightarrow> (Inl e, w)
      | Inr due \<Rightarrow>
          (case getMissingUpdates kit (fst clk) due (issue_id issue) owner repo w of
             (Inl e, w') \<Rightarrow> (Inl e, w')
           | (Inr mu, w') \<Rightarrow>
               (case getMissingFieldsFromDeepDiveBody engine (issue_body issue) of
                  Inl e \<Rightarrow> (Inl e, w')
                | Inr mf \<Rightarrow>
                    (Inr (check_high_priority (snd clk) due mf
                            \<lparr>id' = Some (issue_id issue), dueDate = Some due,
                             highPriority = None, missingFields = Some mf,
                             missingUpdates = Some mu, title = Some (issue_title issue),
                             url = Some (issue_url issue)\<rparr>), w'))))"

text \<open>
  \<open>Array.prototype.map\<close> with a callback that has effects: the callbacks run in the order of
  the array, \<open>i\<close> is the index of the element. (Each callback calls the client at most once,
  before its first suspension, so the calls reach the log in this order.)
\<close>

fun map_issues ::
  "(nat \<Rightarrow> issue \<Rightarrow> world \<Rightarrow> 'r \<times> world) \<Rightarrow> nat \<Rightarrow> issue list \<Rightarrow> world \<Rightarrow> 'r list \<times> world" where
  "map_issues f i [] w = ([], w)"
| "map_issues f i (x # xs) w =
     (case f i x w of (p, w1) \<Rightarrow>
        (case map_issues f (Suc i) xs w1 of (ps, w2) \<Rightarrow> (p # ps, w2)))"

text \<open>
  \<open>await kit.paginate(...).map(async issue => ...)\<close> applies \<open>.map\<close> to what \<open>kit.paginate\<close>
  returns and \<open>await\<close> to what \<open>.map\<close> returns. A promise has no \<open>map\<close>, so a client that
  returns one gets a \<open>TypeError\<close>. On an array, \<open>.map\<close> gives the array of the promises of
  the callbacks, and awaiting an array gives that array: the function fulfils with the
  promises, each represented here by how it settles. \<open>clock i\<close> holds the clock readings
  of the callback of the \<open>i\<close>-th issue.
\<close>

definition getDeepDiveIssues ::
  "matcher \<Rightarrow> date_parser \<Rightarrow> kit \<Rightarrow> string \<Rightarrow> string \<Rightarrow> (nat \<Rightarrow> timeval \<times> timeval)
     \<Rightarrow> world \<Rightarrow> (error + (error + DeepDiveIssueUpdate) list) \<times> world" where
  "getDeepDiveIssues engine parse kit owner repo clock w =
     (case paginate_issues kit (ListIssues owner repo ''Deep-dive'' ''open'') of
        Throws e \<Rightarrow> (Inl e, w @ [ListIssues owner repo ''Deep-dive'' ''open''])
      | Promise p \<Rightarrow> (Inl TypeError, w @ [ListIssues owner repo ''Deep-dive'' ''open''])
      | Array issues \<Rightarrow>
          (case map_issues (\<lambda>i. issue_callback engine parse kit owner repo (clock i)) 0 issues
                  (w @ [ListIssues owner repo ''Deep-dive'' ''open'']) of
             (allIssues, w') \<Rightarrow> (Inr allIssues, w')))"

subsection \<open>Formatter\<close>

text \<open>The second half of the immediately invoked function that computes \<open>reason\<close>.\<close>

definition reason_updates :: "DeepDiveIssueUpdate \<Rightarrow> error + string option" where
  "reason_updates deepDiveUpdate =
     (case missingUpdates deepDiveUpdate of
        None \<Rightarrow> Inl TypeError
      | Some mu \<Rightarrow>
          if truthy (pastDue mu)
          then (if truthy (needsNotes mu) then Inr (Some ''Needs notes'')
                else if truthy (needsRecording mu) then Inr (Some ''Needs a rewatch recording'')
                else Inr None)
          else Inr None)"

definition reason :: "DeepDiveIssueUpdate \<Rightarrow> error + string option" where
  "reason deepDiveUpdate =
     (if truthy (highPriority deepDiveUpdate)
      then (case missingFields deepDiveUpdate of
              None \<Rightarrow> Inl TypeError
            | Some mf \<Rightarrow>
                if truthy (leader mf)
                then Inr (Some (''Needs a leader ''
                                @ (if truthy (notetaker mf) then ''and a notetaker'' else [])
                                @ '' to volunteer''))
                else if truthy (notetaker mf) then Inr (Some ''Needs a notetaker to volunteer'')
                else reason_updates deepDiveUpdate)
      else reason_updates deepDiveUpdate)"

definition formatDeepDiveUpdate :: "DeepDiveIssueUpdate \<Rightarrow> error + string" where
  "formatDeepDiveUpdate deepDiveUpdate =
     (case reason deepDiveUpdate of
        Inl e \<Rightarrow> Inl e
      | Inr r \<Rightarrow>
          Inr ((if truthy (highPriority deepDiveUpdate) then '':warning: Tomorrow's '' else [])
               @ ''['' @ interpolate (title deepDiveUpdate) @ '']('' 
               @ interpolate (url deepDiveUpdate) @ ''): '' @ interpolate r))"

subsection \<open>Top level\<close>





subsection \<open>The reason priority in the words of the specification\<close>

text \<open>
  The flags the specification's priority list speaks of, read off a record; a flag whose
  sub-record is absent does not hold.
\<close>

definition leader_missing :: "DeepDiveIssueUpdate \<Rightarrow> bool" where
  "leader_missing u = (case missingFields u of None \<Rightarrow> False | Some mf \<Rightarrow> truthy (leader mf))"

definition notetaker_missing :: "DeepDiveIssueUpdate \<Rightarrow> bool" where
  "notetaker_missing u =
     (case missingFields u of None \<Rightarrow> False | Some mf \<Rightarrow> truthy (notetaker mf))"

definition is_pastDue :: "DeepDiveIssueUpdate \<Rightarrow> bool" where
  "is_pastDue u = (case missingUpdates u of None \<Rightarrow> False | Some mu \<Rightarrow> truthy (pastDue mu))"

definition notes_missing :: "DeepDiveIssueUpdate \<Rightarrow> bool" where
  "notes_missing u =
     (case missingUpdates u of None \<Rightarrow> False | Some mu \<Rightarrow> truthy (needsNotes mu))"

definition recording_missing :: "DeepDiveIssueUpdate \<Rightarrow> bool" where
  "recording_missing u =
     (case missingUpdates u of None \<Rightarrow> False | Some mu \<Rightarrow> truthy (needsRecording mu))"

text \<open>
  The priority list (a) to (e) of the specification's formatter, with the texts of the
  source; \<open>None\<close> is the undefined reason of case (e).
\<close>

definition reason_by_priority :: "DeepDiveIssueUpdate \<Rightarrow> string option" where
  "reason_by_priority u =
     (if truthy (highPriority u) \<and> leader_missing u
      then Some (''Needs a leader '' @ (if notetaker_missing u then ''and a notetaker'' else [])
                 @ '' to volunteer'')
      else if truthy (highPriority u) \<and> notetaker_missing u
      then Some ''Needs a notetaker to volunteer''
      else if is_pastDue u \<and> notes_missing u then Some ''Needs notes''
      else if is_pastDue u \<and> recording_missing u then Some ''Needs a rewatch recording''
      else None)"

text \<open>
  The output string of the specification: marker and prefix when high priority, the link,
  a colon, the reason.
\<close>

definition rendered_by_priority :: "DeepDiveIssueUpdate \<Rightarrow> string" where
  "rendered_by_priority u =
     (if truthy (highPriority u) then '':warning: Tomorrow's '' else [])
     @ ''['' @ interpolate (title u) @ '']('' @ interpolate (url u) @ ''): ''
     @ interpolate (reason_by_priority u)"

text \<open>
  The sub-records the formatter reads exist: \<open>missingFields\<close> when the record is high
  priority, \<open>missingUpdates\<close> when the roles give no reason.
\<close>

definition reads_defined :: "DeepDiveIssueUpdate \<Rightarrow> bool" where
  "reads_defined u =
     ((if truthy (highPriority u) then missingFields u \<noteq> None else True) \<and>
      (if truthy (highPriority u) \<and> (leader_missing u \<or> notetaker_missing u) then True
       else missingUpdates u \<noteq> None))"

subsection \<open>Scenarios\<close>

text \<open>A client that answers every issue request and every comment request alike.\<close>

definition scenario_kit :: "issue list returned \<Rightarrow> comment list returned \<Rightarrow> kit" where
  "scenario_kit issues comments =
     \<lparr>paginate_issues = (\<lambda>rq. issues), paginate_comments = (\<lambda>rq. comments)\<rparr>"

text \<open>
  Issue bodies: a timing section with the event on 2024-01-05T17:00:00.000Z (time value
  1704474000000), followed by the role lines. The roles are both filled, or only the
  leader is filled; the last body has no timing section.
\<close>

definition timing_section :: string where
  "timing_section =
     ''## Timing'' @ [CHR 0x0A] @ ''2024-01-05T17:00:00.000Z'' @ [CHR 0x0A]
     @ ''[Google Event](https://calendar.example/e1)'' @ [CHR 0x0A]"

definition staffed_body :: string where
  "staffed_body =
     timing_section @ ''Leader: @alice'' @ [CHR 0x0A] @ ''Notetaker: @bob'' @ [CHR 0x0A]"

definition leader_only_body :: string where
  "leader_only_body =
     timing_section @ ''Leader: @alice'' @ [CHR 0x0A] @ ''Notetaker:'' @ [CHR 0x0A]"

definition untimed_body :: string where
  "untimed_body = ''Leader: @alice'' @ [CHR 0x0A] @ ''Notetaker: @bob'' @ [CHR 0x0A]"

text \<open>
  An engine for the closed scenarios: its date parser reads the ISO timestamp of the
  scenarios and rejects every other text, its matcher finds nothing. The three literals
  of the module are rejected before either is consulted.
\<close>

definition iso_parse :: date_parser where
  "iso_parse text = (if text = ''2024-01-05T17:00:00.000Z'' then Some 1704474000000 else None)"

definition null_engine :: matcher where
  "null_engine regex text = None"

definition scenario_issue :: "int \<Rightarrow> string \<Rightarrow> issue" where
  "scenario_issue n b =
     \<lparr>issue_id = n, issue_url = ''https://example.test/issues'', issue_title = ''Deep dive'',
      issue_body = b\<rparr>"

text \<open>Clock readings: an hour before the event, and a week before it.\<close>

definition hour_before :: timeval where
  "hour_before = 1704470400000"

definition week_before :: timeval where
  "week_before = 1703869200000"

text \<open>Two comments, one with a recording link and one with a notes link.\<close>

definition linked_comments :: "comment list" where
  "linked_comments =
     [\<lparr>body = ''Recording: https://github.rewatch.com/video/abc123''\<rparr>,
      \<lparr>body = ''Notes: https://github.com/github/accessibility/blob/main/docs/deep-dive-notes/jan.md''\<rparr>]"

text \<open>A client that has comments for issue 7 of o/r only.\<close>

definition picky_kit :: "issue list returned \<Rightarrow> kit" where
  "picky_kit issues =
     \<lparr>paginate_issues = (\<lambda>rq. issues),
      paginate_comments =
        (\<lambda>rq. if rq = ListComments 7 ''o'' ''r'' then Array [] else Throws (Failure ''no such issue''))\<rparr>"

text \<open>Update records in the style of the specification's formatter scenarios.\<close>

definition volunteers_wanted :: DeepDiveIssueUpdate where
  "volunteers_wanted =
     \<lparr>id' = None, dueDate = None, highPriority = Some True,
      missingFields = Some \<lparr>leader = Some True, notetaker = Some True\<rparr>,
      missingUpdates = None, title = Some ''T'', url = Some ''U''\<rparr>"

definition staffed_no_updates :: DeepDiveIssueUpdate where
  "staffed_no_updates =
     \<lparr>id' = None, dueDate = None, highPriority = Some True,
      missingFields = Some \<lparr>leader = Some False, notetaker = Some False\<rparr>,
      missingUpdates = None, title = Some ''T'', url = Some ''U''\<rparr>"

definition nothing_to_report :: DeepDiveIssueUpdate where
  "nothing_to_report =
     \<lparr>id' = None, dueDate = None, highPriority = Some False, missingFields = None,
      missingUpdates = Some \<lparr>pastDue = Some False, needsRecording = None, needsNotes = None\<rparr>,
      title = Some ''T'', url = Some ''U''\<rparr>"

definition bare_update :: DeepDiveIssueUpdate where
  "bare_update =
     \<lparr>id' = None, dueDate = None, highPriority = Some False, missingFields = None,
      missingUpdates = None, title = Some ''T'', url = Some ''U''\<rparr>"

section \<open>Properties\<close>

lemmas scenario_defs = scenario_kit_def timing_section_def staffed_body_def leader_only_body_def
  untimed_body_def iso_parse_def null_engine_def scenario_issue_def
  hour_before_def week_before_def linked_comments_def picky_kit_def volunteers_wanted_def
  staffed_no_updates_def nothing_to_report_def bare_update_def

lemmas flag_defs = leader_missing_def notetaker_missing_def is_pastDue_def notes_missing_def
  recording_missing_def

subsection \<open>Strings\<close>

text \<open>\<open>includes'\<close> is the substring relation.\<close>

lemma includes'_sublist: "includes' s sub \<longleftrightarrow> sublist sub s"
  by (induction s) (simp_all add: sublist_Cons_right)

subsection \<open>The literals of the module\<close>

text \<open>All three literals open a group with \<open>(?s)\<close> and are rejected.\<close>

lemma due_date_literal_rejected:
  "regexp_literal (''## Timing(?s)(.*)'' @ [CHR 0x5C] @ ''[Google Event'') ''g'' = Inl SyntaxError"
  by (simp add: regexp_literal_def)

lemma notetaker_literal_rejected: "regexp_literal ''Notetaker:(?s)(.*)?'' ''g'' = Inl SyntaxError"
  by (simp add: regexp_literal_def)

lemma leader_literal_rejected:
  "regexp_literal ''Leader:(?s)(.*)Notetaker'' ''g'' = Inl SyntaxError"
  by (simp add: regexp_literal_def)

text \<open>The same pattern with the dot-all flag as a modifier group compiles.\<close>

lemma modifier_group_accepted: "regexp_literal ''Leader:(?s:.*)Notetaker'' ''g'' =
    Inr (RegExp ''Leader:(?s:.*)Notetaker'' ''g'')"
  by (simp add: regexp_literal_def)

text \<open>So both extractors throw, whatever the issue body, the matcher and the date parser.\<close>

lemma getDueDate_rejects: "getDueDateFromDeepDiveBody engine parse issueBody = Inl SyntaxError"
  by (simp add: getDueDateFromDeepDiveBody_def regexp_literal_def)

lemma getMissingFields_rejects: "getMissingFieldsFromDeepDiveBody engine issueBody = Inl SyntaxError"
  by (simp add: getMissingFieldsFromDeepDiveBody_def regexp_literal_def)

subsection \<open>The comment scan\<close>

lemma foldl_scan_comment:
  "foldl scan_comment (a, b) cs =
     (a \<and> \<not> (\<exists>c\<in>set cs. includes' (body c) ''github.rewatch.com''),
      b \<and> \<not> (\<exists>c\<in>set cs. includes' (body c) ''/accessibility/blob/main/docs/deep-dive-notes/''))"
  by (induction cs arbitrary: a b) (auto simp: scan_comment_def)

subsection \<open>What the collector and the top level return\<close>

text \<open>Every per-issue promise is rejected before the client is called for it.\<close>

lemma issue_callback_rejects:
  "issue_callback engine parse kit owner repo clk x w = (Inl SyntaxError, w)"
  by (simp add: issue_callback_def getDueDate_rejects)

lemma map_issues_rejects:
  "map_issues (\<lambda>i. issue_callback engine parse kit owner repo (clock i)) i xs w =
     (map (\<lambda>x. Inl SyntaxError) xs, w)"
  by (induction xs arbitrary: i) (simp_all add: issue_callback_rejects)

lemma getDeepDiveIssues_outcome:
  "getDeepDiveIssues engine parse kit owner repo clock w =
     (case paginate_issues kit (ListIssues owner repo ''Deep-dive'' ''open'') of
        Array issues \<Rightarrow> Inr (map (\<lambda>x. Inl SyntaxError) issues)
      | Promise p \<Rightarrow> Inl TypeError
      | Throws e \<Rightarrow> Inl e,
      w @ [ListIssues owner repo ''Deep-dive'' ''open''])"
  by (simp add: getDeepDiveIssues_def map_issues_rejects split: returned.splits)




subsection \<open>The evaluator does not read the log\<close>


section \<open>The claims\<close>

subsection \<open>C1: high priority\<close>

text \<open>
  Claim C1 says that an issue due within one day with only the notetaker unfilled must come
  out as a high-priority record. For such an issue no record comes out at all: with a client
  that returns the issues as an array the promise of the issue is rejected with the
  \<open>SyntaxError\<close> of the due-date literal, and with a client that returns a promise the call
  is rejected with a \<open>TypeError\<close>. The statements that decide the priority would not
  do what the claim says either: they test the leader flag twice and never read the
  notetaker flag, and their window has no lower end.
\<close>

theorem no_record_for_notetaker_only_issue:
  "fst (getDeepDiveIssues engine parse
          (scenario_kit (Array [scenario_issue 7 leader_only_body]) comments)
          ''o'' ''r'' clock w) = Inr [Inl SyntaxError]
   \<and> fst (getDeepDiveIssues engine parse
          (scenario_kit (Promise (Inr [scenario_issue 7 leader_only_body])) comments)
          ''o'' ''r'' clock w) = Inl TypeError
   \<and> highPriority (check_high_priority now due mf mappedIssue) =
       (if due - now \<le> oneDayMs \<and> truthy (leader mf) then Some True
        else highPriority mappedIssue)"
  by (simp add: getDeepDiveIssues_outcome scenario_kit_def check_high_priority_def)

subsection \<open>C2: past due\<close>

text \<open>
  Claim C2 says that \<open>pastDue\<close> holds exactly when the due date is at or before the current
  time minus one day. The source compares the difference \<open>dueDate - now\<close> with plus one day:
  for an event that is still an hour away it reports \<open>pastDue\<close> and fetches the comments,
  although the due date is not at or before \<open>now - oneDayMs\<close>.
\<close>

theorem getMissingUpdates_due_in_an_hour:
  "getMissingUpdates (scenario_kit (Array []) (Array [])) hour_before 1704474000000 7 ''o'' ''r'' []
     = (Inr \<lparr>pastDue = Some True, needsRecording = Some True, needsNotes = Some True\<rparr>,
        [ListComments 7 ''o'' ''r''])
   \<and> \<not> (1704474000000 \<le> hour_before - oneDayMs)"
  by (simp add: getMissingUpdates_def scenario_defs oneDayMs_def)

subsection \<open>C3: the comment scan\<close>

text \<open>
  Claim C3. For a due date in the past whose comments are fetched, \<open>getMissingUpdates\<close>
  reports \<open>pastDue\<close>, and \<open>needsRecording\<close> (\<open>needsNotes\<close>) is true exactly when no comment
  body contains the recording domain (the notes path) as a substring.
\<close>

theorem getMissingUpdates_scans_comments:
  assumes "due < now"
      and "await (paginate_comments kit (ListComments issueId owner repo)) = Inr comments"
  shows "fst (getMissingUpdates kit now due issueId owner repo w) =
           Inr \<lparr>pastDue = Some True,
                needsRecording =
                  Some (\<not> (\<exists>c\<in>set comments. sublist ''github.rewatch.com'' (body c))),
                needsNotes =
                  Some (\<not> (\<exists>c\<in>set comments.
                    sublist ''/accessibility/blob/main/docs/deep-dive-notes/'' (body c)))\<rparr>"
proof -
  have "due - now \<le> oneDayMs" using assms(1) by (simp add: oneDayMs_def)
  then show ?thesis
    using assms(2) by (simp add: getMissingUpdates_def foldl_scan_comment includes'_sublist)
qed

text \<open>
  With no comments both flags are true; with one comment that links a recording and one
  that links the notes both are false.
\<close>

theorem getMissingUpdates_scans_comments_witness:
  "fst (getMissingUpdates (scenario_kit (Array []) (Promise (Inr []))) hour_before week_before
          7 ''o'' ''r'' [])
     = Inr \<lparr>pastDue = Some True, needsRecording = Some True, needsNotes = Some True\<rparr>
   \<and> fst (getMissingUpdates (scenario_kit (Array []) (Promise (Inr linked_comments))) hour_before
            week_before 7 ''o'' ''r'' [])
     = Inr \<lparr>pastDue = Some True, needsRecording = Some False, needsNotes = Some False\<rparr>"
  using getMissingUpdates_scans_comments[of week_before hour_before
          "scenario_kit (Array []) (Promise (Inr []))" 7 "''o''" "''r''" "[]" "[]"]
        getMissingUpdates_scans_comments[of week_before hour_before
          "scenario_kit (Array []) (Promise (Inr linked_comments))" 7 "''o''" "''r''"
          linked_comments "[]"]
  by (simp add: scenario_defs includes'_sublist[symmetric])

subsection \<open>C4: no call when not due\<close>

text \<open>
  Claim C4. For a due date more than one day after the current time, \<open>getMissingUpdates\<close>
  returns exactly \<open>{pastDue: false}\<close> and leaves the log of client calls as it was: it makes
  no call.
\<close>

theorem getMissingUpdates_not_due:
  assumes "oneDayMs < due - now"
  shows "getMissingUpdates kit now due issueId owner repo w =
           (Inr \<lparr>pastDue = Some False, needsRecording = None, needsNotes = None\<rparr>, w)"
  using assms by (simp add: getMissingUpdates_def)

text \<open>A week before the event, with a client whose comment call would throw.\<close>

theorem getMissingUpdates_not_due_witness:
  "oneDayMs < 1704474000000 - week_before \<and>
   getMissingUpdates (scenario_kit (Array []) (Throws (Failure ''not to be called''))) week_before
       1704474000000 7 ''o'' ''r'' []
     = (Inr \<lparr>pastDue = Some False, needsRecording = None, needsNotes = None\<rparr>, [])"
proof -
  have h: "oneDayMs < 1704474000000 - week_before" by (simp add: oneDayMs_def scenario_defs)
  from getMissingUpdates_not_due[OF h] h show ?thesis by simp
qed

subsection \<open>C5: the reason priority\<close>

text \<open>
  Claim C5, as amended. On every update record whose sub-records the formatter reads are
  present, \<open>formatDeepDiveUpdate\<close> returns the string of the specification: marker and
  prefix exactly when high priority, the link, a colon, and the reason chosen by the
  priority list, \<open>undefined\<close> when none applies. On every other record it throws a
  \<open>TypeError\<close>.
\<close>

theorem formatDeepDiveUpdate_by_priority:
  "formatDeepDiveUpdate u =
     (if reads_defined u then Inr (rendered_by_priority u) else Inl TypeError)"
  by (auto simp: formatDeepDiveUpdate_def reason_def reason_updates_def reads_defined_def
      rendered_by_priority_def reason_by_priority_def flag_defs split: option.splits)

text \<open>The first formatter scenario of the specification.\<close>

theorem formatDeepDiveUpdate_by_priority_witness:
  "formatDeepDiveUpdate volunteers_wanted =
     Inr '':warning: Tomorrow's [T](U): Needs a leader and a notetaker to volunteer''"
  using formatDeepDiveUpdate_by_priority[of volunteers_wanted]
  by (simp add: reads_defined_def rendered_by_priority_def reason_by_priority_def flag_defs
      scenario_defs)

text \<open>
  The claim as stated, for every update record, fails on a high-priority record with both
  roles filled and no \<open>missingUpdates\<close>: the priority list gives the undefined reason, the
  formatter throws.
\<close>

theorem formatDeepDiveUpdate_absent_updates_counterexample:
  "formatDeepDiveUpdate staffed_no_updates = Inl TypeError
   \<and> rendered_by_priority staffed_no_updates = '':warning: Tomorrow's [T](U): undefined''
   \<and> formatDeepDiveUpdate staffed_no_updates \<noteq> Inr (rendered_by_priority staffed_no_updates)"
  by (simp add: formatDeepDiveUpdate_def reason_def reason_updates_def rendered_by_priority_def
      reason_by_priority_def flag_defs scenario_defs)

subsection \<open>C6: the due date\<close>

text \<open>
  Claim C6 says that the extraction returns the date of a well-formed timing section. The
  extraction throws a \<open>SyntaxError\<close> on every issue body, well-formed or not: its literal
  is rejected before the body is looked at.
\<close>

theorem getDueDate_throws_SyntaxError:
  "getDueDateFromDeepDiveBody engine parse issueBody = Inl SyntaxError"
  by (simp add: getDueDateFromDeepDiveBody_def regexp_literal_def)

subsection \<open>C7: the roles\<close>

text \<open>
  Claim C7 says that each role is reported according to whether its line has a value. The
  extraction reports nothing: it throws a \<open>SyntaxError\<close> on every issue body.
\<close>

theorem getMissingFields_throws_SyntaxError:
  "getMissingFieldsFromDeepDiveBody engine issueBody = Inl SyntaxError"
  by (simp add: getMissingFieldsFromDeepDiveBody_def regexp_literal_def)

subsection \<open>C8: a failing issue\<close>




subsection \<open>C9: runs and their inputs\<close>




subsection \<open>C10: the undefined reason\<close>

text \<open>
  Claim C10, as amended. On a record in which no reason branch applies (\<open>highPriority\<close> is
  falsy, or \<open>missingFields\<close> is present with both role flags falsy; and \<open>missingUpdates\<close> is
  present with \<open>pastDue\<close> falsy or with both \<open>needsNotes\<close> and \<open>needsRecording\<close> falsy) the
  formatter returns a string that ends with \<open>: undefined\<close>.
\<close>

theorem formatDeepDiveUpdate_undefined_reason:
  assumes "\<not> truthy (highPriority u) \<or>
           (\<exists>mf. missingFields u = Some mf \<and> \<not> truthy (leader mf) \<and> \<not> truthy (notetaker mf))"
      and "\<exists>mu. missingUpdates u = Some mu \<and>
           (\<not> truthy (pastDue mu) \<or> (\<not> truthy (needsNotes mu) \<and> \<not> truthy (needsRecording mu)))"
  shows "formatDeepDiveUpdate u =
           Inr ((if truthy (highPriority u) then '':warning: Tomorrow's '' else [])
                @ ''['' @ interpolate (title u) @ '']('' @ interpolate (url u) @ '')''
                @ '': undefined'')"
  using assms
  by (auto simp: formatDeepDiveUpdate_def reason_def reason_updates_def split: option.splits)

text \<open>A record that is neither high priority nor past due.\<close>

theorem formatDeepDiveUpdate_undefined_reason_witness:
  "formatDeepDiveUpdate nothing_to_report = Inr ''[T](U): undefined''"
  using formatDeepDiveUpdate_undefined_reason[of nothing_to_report]
  by (simp add: scenario_defs)

text \<open>
  The claim as stated fails on a record without \<open>missingUpdates\<close>: its \<open>highPriority\<close> is
  falsy and it has no \<open>pastDue\<close>, yet the formatter throws instead of returning a string.
\<close>

theorem formatDeepDiveUpdate_bare_record_counterexample:
  "\<not> truthy (highPriority bare_update) \<and> \<not> is_pastDue bare_update
   \<and> formatDeepDiveUpdate bare_update = Inl TypeError"
  by (simp add: formatDeepDiveUpdate_def reason_def reason_updates_def flag_defs scenario_defs)

end
